theory Spec2Isabelle
  imports Main "HOL-Library.Multiset" "HOL-Library.List_Lexorder" "HOL-Library.Char_ord"
begin

section \<open>Values\<close>

text \<open>
  The invite handler reads its request body as an untyped JSON object and checks the
  shape of \<open>emails\<close> at run time, so the properties of that body are JSON values. A
  property that is absent (\<open>undefined\<close>) is \<open>None\<close>. A JSON number is kept as an
  integer: the handlers only ever test a value for being falsy.
\<close>

datatype jsval =
    JNull
  | JBool bool
  | JNum int
  | JStr string
  | JArr "jsval list"
  | JObj "(string \<times> jsval) list"

text \<open>JavaScript's truthiness, as \<open>!x\<close> and \<open>x || d\<close> test it.\<close>

fun truthy :: "jsval option \<Rightarrow> bool" where
  "truthy None = False"
| "truthy (Some JNull) = False"
| "truthy (Some (JBool b)) = b"
| "truthy (Some (JNum n)) = (n \<noteq> 0)"
| "truthy (Some (JStr s)) = (s \<noteq> [])"
| "truthy (Some (JArr xs)) = True"
| "truthy (Some (JObj kvs)) = True"

text \<open>\<open>x || d\<close> on an untyped value.\<close>

definition or_else :: "jsval option \<Rightarrow> jsval \<Rightarrow> jsval" where
  "or_else x d = (if truthy x then the x else d)"

fun isArray :: "jsval option \<Rightarrow> bool" where
  "isArray (Some (JArr xs)) = True"
| "isArray v = False"

text \<open>\<open>emails.length\<close>, read only after \<open>isArray\<close> has answered true.\<close>

fun array_length :: "jsval option \<Rightarrow> nat" where
  "array_length (Some (JArr xs)) = length xs"
| "array_length v = 0"

text \<open>Truthiness and \<open>x || d\<close> on a value of type \<open>string | undefined\<close>.\<close>

fun truthy_str :: "string option \<Rightarrow> bool" where
  "truthy_str None = False"
| "truthy_str (Some s) = (s \<noteq> [])"

definition or_str :: "string option \<Rightarrow> string \<Rightarrow> string" where
  "or_str x d = (if truthy_str x then the x else d)"

section \<open>Team records and the key-value store\<close>

text \<open>
  \<open>interface Team { token: string; accountId: string; name?: string; id?: string }\<close>.
  The fields carry the types the interface declares; an optional field that is absent
  is \<open>None\<close>. The field \<open>id\<close> is called \<open>team_id\<close> here.
\<close>

record team =
  token :: string
  accountId :: string
  name :: "string option"
  team_id :: "string option"

text \<open>
  The program only uses keys of the form \<open>["teams", id]\<close>, so the store is modelled as
  that namespace: a list of (id, value) entries kept in the order in which
  \<open>kv.list({prefix: ["teams"]})\<close> yields them, which is the byte order of the keys.
  \<open>getKv\<close> opens the store on first use and hands out the same handle afterwards, so
  every operation acts on the one store; opening it is not modelled, nor is the
  logging to the console.
\<close>

type_synonym kv_store = "(string \<times> team) list"

text \<open>\<open>kv.set(["teams", k], v)\<close>: create or replace the entry under \<open>k\<close>.\<close>

fun kv_set :: "string \<Rightarrow> team \<Rightarrow> kv_store \<Rightarrow> kv_store" where
  "kv_set k v [] = [(k, v)]"
| "kv_set k v ((k', v') # rest) =
     (if k = k' then (k, v) # rest
      else if k < k' then (k, v) # (k', v') # rest
      else (k', v') # kv_set k v rest)"

text \<open>\<open>kv.delete(["teams", k])\<close>: remove the entry under \<open>k\<close>, if there is one.\<close>

definition kv_delete :: "string \<Rightarrow> kv_store \<Rightarrow> kv_store" where
  "kv_delete k st = filter (\<lambda>e. fst e \<noteq> k) st"

text \<open>\<open>kv.list({prefix: ["teams"]})\<close>, each entry's value.\<close>

definition kv_list :: "kv_store \<Rightarrow> team list" where
  "kv_list st = map snd st"

section \<open>The platform\<close>

datatype js_error = Error string

fun message :: "js_error \<Rightarrow> string" where
  "message (Error m) = m"

text \<open>The request \<open>fetch\<close> is given: the URL and the \<open>init\<close> object.\<close>

record fetch_request =
  url :: string
  http_method :: string
  headers :: "(string \<times> string) list"
  payload :: jsval

text \<open>
  What \<open>fetch\<close> produces: the promise rejects, or it resolves to a response with a
  status, and reading the body as text or as JSON gives a value or throws.
\<close>

datatype http_response =
  Response (response_status: nat)
           (response_text: "js_error + string")
           (response_json: "js_error + jsval")

definition response_ok :: "http_response \<Rightarrow> bool" where
  "response_ok r = (200 \<le> response_status r \<and> response_status r \<le> 299)"

datatype fetch_outcome = Rejects js_error | Resolves http_response

text \<open>
  The parts of the runtime the program calls and does not define, during one request:
  \<open>String.prototype.localeCompare\<close>, the value \<open>crypto.randomUUID()\<close> returns,
  \<open>Deno.env.get\<close> and \<open>fetch\<close>.
\<close>

record runtime =
  localeCompare :: "string \<Rightarrow> string \<Rightarrow> int"
  randomUUID :: string
  env_get :: "string \<Rightarrow> string option"
  fetch :: "fetch_request \<Rightarrow> fetch_outcome"

text \<open>
  The state a handler acts on: the store, and the trace of the store operations and
  outbound calls made so far, in order.
\<close>

datatype event = KvList | KvSet string | KvDelete string | Fetch fetch_request

record state =
  kv :: kv_store
  trace :: "event list"

fun is_fetch :: "event \<Rightarrow> bool" where
  "is_fetch (Fetch r) = True"
| "is_fetch e = False"

definition outbound_calls :: "state \<Rightarrow> event list" where
  "outbound_calls s = filter is_fetch (trace s)"

section \<open>sendInvitesApi\<close>

text \<open>What \<open>sendInvitesApi\<close> returns: \<open>{success: false, statusCode, error}\<close> or
  \<open>{success: true, data}\<close>.\<close>

datatype api_result = ApiFailure nat string | ApiSuccess jsval

fun success :: "api_result \<Rightarrow> bool" where
  "success (ApiFailure c e) = False"
| "success (ApiSuccess d) = True"

fun statusCode :: "api_result \<Rightarrow> nat option" where
  "statusCode (ApiFailure c e) = Some c"
| "statusCode (ApiSuccess d) = None"

definition invite_request :: "jsval \<Rightarrow> jsval \<Rightarrow> jsval \<Rightarrow> string \<Rightarrow> string \<Rightarrow> fetch_request" where
  "invite_request emails role resend tok acct =
     \<lparr> url = ''https://chat.openai.com/backend-api/teams/'' @ acct @ ''/invites'',
       http_method = ''POST'',
       headers = [(''Authorization'', ''Bearer '' @ tok),
                  (''Content-Type'', ''application/json''),
                  (''User-Agent'', ''Mozilla/5.0 (Windows NT 10.0; Win64; x64) AppleWebKit/537.36'')],
       payload = JObj [(''emails'', emails), (''role'', role), (''resend'', resend)] \<rparr>"

text \<open>
  The \<open>catch\<close> block logs and rethrows, so an exception of \<open>fetch\<close>, of
  \<open>response.text()\<close> or of \<open>response.json()\<close> is the \<open>Inl\<close> result.
\<close>

definition sendInvitesApi ::
  "runtime \<Rightarrow> jsval \<Rightarrow> jsval \<Rightarrow> jsval \<Rightarrow> string \<Rightarrow> string \<Rightarrow> state \<Rightarrow> (js_error + api_result) \<times> state" where
  "sendInvitesApi rt emails role resend tok acct s =
     (let req = invite_request emails role resend tok acct;
          s' = s\<lparr>trace := trace s @ [Fetch req]\<rparr>
      in case fetch rt req of
           Rejects e \<Rightarrow> (Inl e, s')
         | Resolves r \<Rightarrow>
             if \<not> response_ok r then
               (case response_text r of
                  Inl e \<Rightarrow> (Inl e, s')
                | Inr txt \<Rightarrow> (Inr (ApiFailure (response_status r) txt), s'))
             else
               (case response_json r of
                  Inl e \<Rightarrow> (Inl e, s')
                | Inr d \<Rightarrow> (Inr (ApiSuccess d), s')))"

section \<open>The team store\<close>

text \<open>
  \<open>Array.prototype.sort\<close> with a comparison function is a stable sort; it is modelled
  as the stable insertion sort, which for a consistent comparison function gives the
  one stable sorted arrangement.
\<close>

fun insert_sorted :: "('a \<Rightarrow> 'a \<Rightarrow> int) \<Rightarrow> 'a \<Rightarrow> 'a list \<Rightarrow> 'a list" where
  "insert_sorted c x [] = [x]"
| "insert_sorted c x (y # ys) =
     (if c x y \<le> 0 then x # y # ys else y # insert_sorted c x ys)"

definition array_sort :: "('a \<Rightarrow> 'a \<Rightarrow> int) \<Rightarrow> 'a list \<Rightarrow> 'a list" where
  "array_sort c xs = foldr (insert_sorted c) xs []"

text \<open>The comparison function of \<open>loadTeams\<close>:
  \<open>(a, b) => (a.name || "").localeCompare(b.name || "")\<close>.\<close>

definition compare_names :: "runtime \<Rightarrow> team \<Rightarrow> team \<Rightarrow> int" where
  "compare_names rt a b = localeCompare rt (or_str (name a) []) (or_str (name b) [])"

definition loadTeams :: "runtime \<Rightarrow> state \<Rightarrow> team list \<times> state" where
  "loadTeams rt s =
     (let teams = kv_list (kv s)
      in (array_sort (compare_names rt) teams, s\<lparr>trace := trace s @ [KvList]\<rparr>))"

text \<open>\<open>saveTeam\<close> assigns the id on the object it is given; the model returns that
  object beside the new state.\<close>

definition saveTeam :: "runtime \<Rightarrow> team \<Rightarrow> state \<Rightarrow> team \<times> state" where
  "saveTeam rt t s =
     (let t' = (if \<not> truthy_str (team_id t) then t\<lparr>team_id := Some (randomUUID rt)\<rparr> else t);
          k = the (team_id t')
      in (t', s\<lparr>kv := kv_set k t' (kv s), trace := trace s @ [KvSet k]\<rparr>))"

definition deleteTeam :: "string \<Rightarrow> state \<Rightarrow> state" where
  "deleteTeam k s = s\<lparr>kv := kv_delete k (kv s), trace := trace s @ [KvDelete k]\<rparr>"

definition getAllConfigs :: "runtime \<Rightarrow> state \<Rightarrow> team list \<times> state" where
  "getAllConfigs rt s =
     (let (teams, s') = loadTeams rt s
      in if length teams = 0 then
           (let fallbackToken = env_get rt ''CHATGPT_TOKEN'';
                fallbackAccountId = env_get rt ''CHATGPT_ACCOUNT_ID''
            in if truthy_str fallbackToken \<and> truthy_str fallbackAccountId then
                 ([\<lparr> token = the fallbackToken,
                      accountId = the fallbackAccountId,
                      name = Some ''Default Env/Global'',
                      team_id = Some ''default'' \<rparr>], s')
               else (teams, s'))
         else (teams, s'))"

section \<open>The routes\<close>

text \<open>The bodies the handlers assign to \<open>ctx.response.body\<close>.\<close>

datatype response_body =
    ErrorBody string
  | InviteResult bool "string option" api_result
  | InviteError "string option" string
  | TeamCreated team
  | SuccessBody

text \<open>What a handler leaves in \<open>ctx.response\<close>; a field it did not assign is
  \<open>None\<close>.\<close>

record ctx_response =
  status :: "nat option"
  body :: "response_body option"

text \<open>\<open>t.id === teamId\<close>, a \<open>string | undefined\<close> against an untyped value.\<close>

fun strict_equals :: "string option \<Rightarrow> jsval option \<Rightarrow> bool" where
  "strict_equals None None = True"
| "strict_equals (Some a) (Some (JStr b)) = (a = b)"
| "strict_equals x y = False"

text \<open>Line 127:
  \<open>configs.find(t => t.id === teamId) || (configs.length === 1 ? configs[0] : null)\<close>.\<close>

definition select_config :: "team list \<Rightarrow> jsval option \<Rightarrow> team option" where
  "select_config configs teamId =
     (case find (\<lambda>t. strict_equals (team_id t) teamId) configs of
        Some t \<Rightarrow> Some t
      | None \<Rightarrow> (if length configs = 1 then Some (hd configs) else None))"

text \<open>\<open>result.statusCode || 500\<close>.\<close>

fun status_or_500 :: "nat option \<Rightarrow> nat" where
  "status_or_500 None = 500"
| "status_or_500 (Some c) = (if c = 0 then 500 else c)"

definition post_api_invite ::
  "runtime \<Rightarrow> (string \<Rightarrow> jsval option) \<Rightarrow> state \<Rightarrow> ctx_response \<times> state" where
  "post_api_invite rt reqBody s =
     (let emails = reqBody ''emails'';
          role = or_else (reqBody ''role'') (JStr ''reader'');
          resend = or_else (reqBody ''resend'') (JBool False);
          teamId = reqBody ''teamId''
      in if \<not> truthy emails \<or> \<not> isArray emails \<or> array_length emails = 0 then
           (\<lparr>status = Some 400, body = Some (ErrorBody ''Emails array is required'')\<rparr>, s)
         else
           (let (configs, s1) = getAllConfigs rt s
            in if length configs = 0 then
                 (\<lparr>status = Some 500,
                   body = Some (ErrorBody ''No team configuration available'')\<rparr>, s1)
               else
                 (case select_config configs teamId of
                    None \<Rightarrow>
                      (\<lparr>status = Some 400,
                        body = Some (ErrorBody ''Invalid or missing team selection'')\<rparr>, s1)
                  | Some config \<Rightarrow>
                      (let (outcome, s2) =
                             sendInvitesApi rt (the emails) role resend
                               (token config) (accountId config) s1
                       in case outcome of
                            Inr result \<Rightarrow>
                              (\<lparr>status = Some (if success result then 200
                                               else status_or_500 (statusCode result)),
                                body = Some (InviteResult (success result) (name config) result)\<rparr>,
                               s2)
                          | Inl err \<Rightarrow>
                              (\<lparr>status = Some 500,
                                body = Some (InviteError (name config) (message err))\<rparr>, s2)))))"

text \<open>
  The add-team handler copies \<open>token\<close>, \<open>accountId\<close> and \<open>name\<close> from the body into a
  \<open>Team\<close> without looking at their type, so its body is an object whose properties
  are strings, as \<open>Team\<close> declares them; any other property may be present as well.
\<close>

definition post_api_teams ::
  "runtime \<Rightarrow> (string \<Rightarrow> string option) \<Rightarrow> state \<Rightarrow> ctx_response \<times> state" where
  "post_api_teams rt reqBody s =
     (let tok = reqBody ''token'';
          acct = reqBody ''accountId'';
          nm = reqBody ''name''
      in if \<not> truthy_str tok \<or> \<not> truthy_str acct then
           (\<lparr>status = Some 400,
             body = Some (ErrorBody ''Token and Account ID are required'')\<rparr>, s)
         else
           (let newTeam = \<lparr> token = the tok, accountId = the acct,
                            name = Some (or_str nm ''Team''), team_id = None \<rparr>;
                (saved, s') = saveTeam rt newTeam s
            in (\<lparr>status = Some 201, body = Some (TeamCreated saved)\<rparr>, s')))"

text \<open>\<open>ctx.params.id\<close> is a \<open>string | undefined\<close>.\<close>

definition delete_api_teams :: "string option \<Rightarrow> state \<Rightarrow> ctx_response \<times> state" where
  "delete_api_teams ident s =
     (if \<not> truthy_str ident then (\<lparr>status = Some 400, body = None\<rparr>, s)
      else (\<lparr>status = None, body = Some SuccessBody\<rparr>, deleteTeam (the ident) s))"

section \<open>Consistency of a comparison function\<close>



text \<open>Every entry of the store is filed under the id its value carries.\<close>

definition keyed_by_id :: "kv_store \<Rightarrow> bool" where
  "keyed_by_id st = list_all (\<lambda>e. team_id (snd e) = Some (fst e)) st"

text \<open>
  The outbound call throws \<open>e\<close>: \<open>fetch\<close> rejects with it, or reading the body of the
  response (as text when the status is not a success, as JSON when it is) throws it.
\<close>

fun call_throws :: "fetch_outcome \<Rightarrow> js_error \<Rightarrow> bool" where
  "call_throws (Rejects e') e = (e' = e)"
| "call_throws (Resolves r) e =
     (if response_ok r then response_json r = Inl e else response_text r = Inl e)"

section \<open>Example inputs\<close>

text \<open>A comparison of strings by their bytes, for the example runtime.\<close>

definition byte_compare :: "string \<Rightarrow> string \<Rightarrow> int" where
  "byte_compare a b = (if a < b then - 1 else if a = b then 0 else 1)"

definition example_runtime ::
  "(string \<Rightarrow> string option) \<Rightarrow> (fetch_request \<Rightarrow> fetch_outcome) \<Rightarrow> runtime" where
  "example_runtime e f =
     \<lparr> localeCompare = byte_compare,
       randomUUID = ''3b241101-e2bb-4255-8caf-4136c566a962'',
       env_get = e,
       fetch = f \<rparr>"

definition no_env :: "string \<Rightarrow> string option" where
  "no_env k = None"

definition both_env :: "string \<Rightarrow> string option" where
  "both_env k =
     (if k = ''CHATGPT_TOKEN'' then Some ''env-token''
      else if k = ''CHATGPT_ACCOUNT_ID'' then Some ''env-account''
      else None)"

definition fetch_accepted :: "fetch_request \<Rightarrow> fetch_outcome" where
  "fetch_accepted r = Resolves (Response 200 (Inr ''{}'') (Inr (JObj [])))"

definition fetch_forbidden :: "fetch_request \<Rightarrow> fetch_outcome" where
  "fetch_forbidden r =
     Resolves (Response 403 (Inr ''forbidden'') (Inl (Error ''Unexpected token'')))"

definition fetch_unreachable :: "fetch_request \<Rightarrow> fetch_outcome" where
  "fetch_unreachable r = Rejects (Error ''connection refused'')"

definition alpha :: team where
  "alpha = \<lparr> token = ''t1'', accountId = ''a1'', name = Some ''Alpha'', team_id = Some ''id-2'' \<rparr>"

definition beta :: team where
  "beta = \<lparr> token = ''t2'', accountId = ''a2'', name = Some ''Beta'', team_id = Some ''id-1'' \<rparr>"

definition unnamed :: team where
  "unnamed = \<lparr> token = ''t3'', accountId = ''a3'', name = None, team_id = Some ''id-3'' \<rparr>"

definition empty_store :: state where
  "empty_store = \<lparr> kv = [], trace = [] \<rparr>"

definition one_team :: state where
  "one_team = \<lparr> kv = [(''id-2'', alpha)], trace = [] \<rparr>"

definition three_teams :: state where
  "three_teams = \<lparr> kv = [(''id-1'', beta), (''id-2'', alpha), (''id-3'', unnamed)], trace = [] \<rparr>"

definition invite_body :: "jsval option \<Rightarrow> jsval option \<Rightarrow> string \<Rightarrow> jsval option" where
  "invite_body es tid k =
     (if k = ''emails'' then es else if k = ''teamId'' then tid else None)"

definition one_email :: "jsval option" where
  "one_email = Some (JArr [JStr ''x@y.com''])"

definition team_body :: "string option \<Rightarrow> string \<Rightarrow> string option" where
  "team_body nm k =
     (if k = ''token'' then Some ''t1''
      else if k = ''accountId'' then Some ''a1''
      else if k = ''name'' then nm
      else None)"

definition no_token_body :: "string \<Rightarrow> string option" where
  "no_token_body k = (if k = ''accountId'' then Some ''a1'' else None)"

section \<open>Sorting\<close>

lemma length_insert_sorted: "length (insert_sorted c x ys) = Suc (length ys)"
  by (induction ys) simp_all

lemma mset_insert_sorted: "mset (insert_sorted c x ys) = add_mset x (mset ys)"
  by (induction ys) simp_all

lemma mset_array_sort: "mset (array_sort c xs) = mset xs"
  unfolding array_sort_def by (induction xs) (simp_all add: mset_insert_sorted)

lemma set_array_sort: "set (array_sort c xs) = set xs"
  by (metis mset_array_sort set_mset_mset)

lemma length_array_sort: "length (array_sort c xs) = length xs"
  by (metis mset_array_sort size_mset)

lemma array_sort_Nil_iff: "array_sort c xs = [] \<longleftrightarrow> xs = []"
  using length_array_sort [of c xs] by (metis length_0_conv)






section \<open>The store operations\<close>

lemma fst_loadTeams: "fst (loadTeams rt s) = array_sort (compare_names rt) (map snd (kv s))"
  by (simp add: loadTeams_def kv_list_def)

lemma snd_loadTeams: "snd (loadTeams rt s) = s\<lparr>trace := trace s @ [KvList]\<rparr>"
  by (simp add: loadTeams_def)

lemma loadTeams_Nil_iff: "fst (loadTeams rt s) = [] \<longleftrightarrow> kv s = []"
  by (simp add: fst_loadTeams array_sort_Nil_iff)

lemma snd_getAllConfigs: "snd (getAllConfigs rt s) = s\<lparr>trace := trace s @ [KvList]\<rparr>"
  by (simp add: getAllConfigs_def loadTeams_def Let_def)

lemma getAllConfigs_stored:
  "kv s \<noteq> [] \<Longrightarrow> fst (getAllConfigs rt s) = fst (loadTeams rt s)"
  using loadTeams_Nil_iff [of rt s]
  by (simp add: getAllConfigs_def Let_def split_beta)

lemma map_of_kv_set: "map_of (kv_set k v st) k = Some v"
  by (induction st) auto

lemma kv_set_member: "(k, v) \<in> set (kv_set k v st)"
  by (induction st) auto

lemma kv_set_keeps:
  "k \<notin> fst ` set st \<Longrightarrow> set (kv_set k v st) = insert (k, v) (set st)"
  by (induction st) (auto split: if_splits)

lemma length_kv_set:
  "k \<notin> fst ` set st \<Longrightarrow> length (kv_set k v st) = Suc (length st)"
  by (induction st) auto

lemma keyed_by_id_kv_set:
  "keyed_by_id st \<Longrightarrow> team_id v = Some k \<Longrightarrow> keyed_by_id (kv_set k v st)"
  unfolding keyed_by_id_def by (induction st) auto

lemma keyed_by_id_kv_delete: "keyed_by_id st \<Longrightarrow> keyed_by_id (kv_delete k st)"
  unfolding keyed_by_id_def kv_delete_def by (induction st) auto

lemma keyed_by_id_saveTeam:
  "keyed_by_id (kv s) \<Longrightarrow> keyed_by_id (kv (snd (saveTeam rt t s)))"
  by (cases "team_id t") (auto simp: saveTeam_def Let_def intro: keyed_by_id_kv_set)

lemma keyed_by_id_deleteTeam:
  "keyed_by_id (kv s) \<Longrightarrow> keyed_by_id (kv (deleteTeam k s))"
  by (simp add: deleteTeam_def keyed_by_id_kv_delete)

lemma kv_delete_absent: "k \<notin> fst ` set (kv_delete k st)"
  by (auto simp: kv_delete_def)

lemma kv_delete_twice: "kv_delete k (kv_delete k st) = kv_delete k st"
  by (simp add: kv_delete_def)

section \<open>Resolution of the configuration\<close>

text \<open>
  C1 (fallback exclusivity). Whatever the environment holds, when the store has at
  least one team record \<open>getAllConfigs\<close> returns exactly the records \<open>loadTeams\<close>
  returns. It returns anything else only when the store is empty and both
  \<open>CHATGPT_TOKEN\<close> and \<open>CHATGPT_ACCOUNT_ID\<close> are set, and then it returns the one
  fallback record with id \<open>default\<close>.
\<close>

theorem getAllConfigs_fallback_exclusive:
  "(kv s \<noteq> [] \<longrightarrow> fst (getAllConfigs rt s) = fst (loadTeams rt s)) \<and>
   (fst (getAllConfigs rt s) \<noteq> fst (loadTeams rt s) \<longrightarrow>
      kv s = [] \<and>
      (\<exists>tok acct.
         env_get rt ''CHATGPT_TOKEN'' = Some tok \<and>
         env_get rt ''CHATGPT_ACCOUNT_ID'' = Some acct \<and>
         fst (getAllConfigs rt s) =
           [\<lparr> token = tok, accountId = acct,
              name = Some ''Default Env/Global'', team_id = Some ''default'' \<rparr>]))"
proof (intro conjI impI)
  assume "kv s \<noteq> []"
  then show "fst (getAllConfigs rt s) = fst (loadTeams rt s)"
    by (rule getAllConfigs_stored)
next
  assume differs: "fst (getAllConfigs rt s) \<noteq> fst (loadTeams rt s)"
  then show "kv s = []"
    using getAllConfigs_stored [of s rt] by blast
next
  assume differs: "fst (getAllConfigs rt s) \<noteq> fst (loadTeams rt s)"
  then have both: "truthy_str (env_get rt ''CHATGPT_TOKEN'') \<and>
      truthy_str (env_get rt ''CHATGPT_ACCOUNT_ID'')"
    by (auto simp: getAllConfigs_def Let_def split_beta split: if_splits)
  then obtain tok acct where
    env: "env_get rt ''CHATGPT_TOKEN'' = Some tok" "env_get rt ''CHATGPT_ACCOUNT_ID'' = Some acct"
    by (cases "env_get rt ''CHATGPT_TOKEN''"; cases "env_get rt ''CHATGPT_ACCOUNT_ID''") auto
  from differs have "length (fst (loadTeams rt s)) = 0"
    by (auto simp: getAllConfigs_def Let_def split_beta split: if_splits)
  with both env have "fst (getAllConfigs rt s) =
      [\<lparr> token = tok, accountId = acct,
         name = Some ''Default Env/Global'', team_id = Some ''default'' \<rparr>]"
    by (simp add: getAllConfigs_def Let_def split_beta)
  with env show "\<exists>tok acct.
         env_get rt ''CHATGPT_TOKEN'' = Some tok \<and>
         env_get rt ''CHATGPT_ACCOUNT_ID'' = Some acct \<and>
         fst (getAllConfigs rt s) =
           [\<lparr> token = tok, accountId = acct,
              name = Some ''Default Env/Global'', team_id = Some ''default'' \<rparr>]"
    by blast
qed

theorem getAllConfigs_fallback_exclusive_witness:
  "kv one_team \<noteq> [] \<and>
   fst (getAllConfigs (example_runtime both_env fetch_accepted) one_team) = [alpha] \<and>
   fst (getAllConfigs (example_runtime both_env fetch_accepted) empty_store)
     \<noteq> fst (loadTeams (example_runtime both_env fetch_accepted) empty_store) \<and>
   kv empty_store = [] \<and>
   fst (getAllConfigs (example_runtime both_env fetch_accepted) empty_store) =
     [\<lparr> token = ''env-token'', accountId = ''env-account'',
        name = Some ''Default Env/Global'', team_id = Some ''default'' \<rparr>]"
proof -
  have stored: "fst (loadTeams (example_runtime both_env fetch_accepted) one_team) = [alpha]"
    by (simp add: loadTeams_def kv_list_def array_sort_def one_team_def)
  have differs: "fst (getAllConfigs (example_runtime both_env fetch_accepted) empty_store)
     \<noteq> fst (loadTeams (example_runtime both_env fetch_accepted) empty_store)"
    by (simp add: getAllConfigs_def loadTeams_def kv_list_def array_sort_def empty_store_def
        example_runtime_def both_env_def)
  have nonempty: "kv one_team \<noteq> []"
    by (simp add: one_team_def)
  from getAllConfigs_fallback_exclusive [of one_team "example_runtime both_env fetch_accepted"]
    getAllConfigs_fallback_exclusive [of empty_store "example_runtime both_env fetch_accepted"]
    stored differs nonempty
  show ?thesis
    by (auto simp: example_runtime_def both_env_def)
qed

section \<open>The invite route\<close>

lemma post_api_invite_rejects:
  "\<not> truthy (reqBody ''emails'') \<or> \<not> isArray (reqBody ''emails'')
     \<or> array_length (reqBody ''emails'') = 0 \<Longrightarrow>
   post_api_invite rt reqBody s =
     (\<lparr>status = Some 400, body = Some (ErrorBody ''Emails array is required'')\<rparr>, s)"
  by (simp add: post_api_invite_def Let_def)

lemma post_api_invite_accepts:
  assumes "reqBody ''emails'' = Some (JArr es)" and "es \<noteq> []"
  shows "post_api_invite rt reqBody s =
     (let configs = fst (getAllConfigs rt s); s1 = snd (getAllConfigs rt s)
      in if configs = [] then
           (\<lparr>status = Some 500,
             body = Some (ErrorBody ''No team configuration available'')\<rparr>, s1)
         else
           (case select_config configs (reqBody ''teamId'') of
              None \<Rightarrow>
                (\<lparr>status = Some 400,
                  body = Some (ErrorBody ''Invalid or missing team selection'')\<rparr>, s1)
            | Some config \<Rightarrow>
                (let sent = sendInvitesApi rt (JArr es)
                              (or_else (reqBody ''role'') (JStr ''reader''))
                              (or_else (reqBody ''resend'') (JBool False))
                              (token config) (accountId config) s1
                 in case fst sent of
                      Inr result \<Rightarrow>
                        (\<lparr>status = Some (if success result then 200
                                         else status_or_500 (statusCode result)),
                          body = Some (InviteResult (success result) (name config) result)\<rparr>,
                         snd sent)
                    | Inl err \<Rightarrow>
                        (\<lparr>status = Some 500,
                          body = Some (InviteError (name config) (message err))\<rparr>,
                         snd sent))))"
  using assms by (simp add: post_api_invite_def Let_def split_beta split: option.splits)

lemma snd_sendInvitesApi:
  "snd (sendInvitesApi rt emails role resend tok acct s) =
     s\<lparr>trace := trace s @ [Fetch (invite_request emails role resend tok acct)]\<rparr>"
  by (simp add: sendInvitesApi_def Let_def split: fetch_outcome.splits sum.splits)

lemma outbound_calls_getAllConfigs:
  "outbound_calls (snd (getAllConfigs rt s)) = outbound_calls s"
  by (simp add: snd_getAllConfigs outbound_calls_def)

lemma select_config_none:
  "1 < length configs \<Longrightarrow> \<forall>t \<in> set configs. \<not> strict_equals (team_id t) teamId \<Longrightarrow>
   select_config configs teamId = None"
  by (simp add: select_config_def find_None_iff split: option.splits)

lemma select_config_single:
  "select_config [c] teamId = Some c"
  by (simp add: select_config_def)

lemma select_config_nonempty: "select_config configs teamId = Some c \<Longrightarrow> configs \<noteq> []"
  by (auto simp: select_config_def)

text \<open>
  C2 (resolution failures). On a request whose \<open>emails\<close> is a non-empty array: when
  no configuration is available the route answers 500 with
  \<open>{error: "No team configuration available"}\<close>; when more than one is available
  and none has the id given as \<open>teamId\<close>, it answers 400 with
  \<open>{error: "Invalid or missing team selection"}\<close>. In both cases the outbound calls
  made are those made before the request.
\<close>

theorem post_api_invite_resolution_failure:
  assumes "reqBody ''emails'' = Some (JArr es)" and "es \<noteq> []"
  shows "(fst (getAllConfigs rt s) = [] \<longrightarrow>
            fst (post_api_invite rt reqBody s) =
              \<lparr>status = Some 500,
                body = Some (ErrorBody ''No team configuration available'')\<rparr> \<and>
            outbound_calls (snd (post_api_invite rt reqBody s)) = outbound_calls s) \<and>
         (1 < length (fst (getAllConfigs rt s)) \<and>
          (\<forall>t \<in> set (fst (getAllConfigs rt s)).
              \<not> strict_equals (team_id t) (reqBody ''teamId'')) \<longrightarrow>
            fst (post_api_invite rt reqBody s) =
              \<lparr>status = Some 400,
                body = Some (ErrorBody ''Invalid or missing team selection'')\<rparr> \<and>
            outbound_calls (snd (post_api_invite rt reqBody s)) = outbound_calls s)"
proof (intro conjI impI)
  note unfolded = post_api_invite_accepts [of reqBody es rt s, OF assms]
  assume none: "fst (getAllConfigs rt s) = []"
  then show "fst (post_api_invite rt reqBody s) =
      \<lparr>status = Some 500, body = Some (ErrorBody ''No team configuration available'')\<rparr>"
    by (simp add: unfolded)
  from none show "outbound_calls (snd (post_api_invite rt reqBody s)) = outbound_calls s"
    by (simp add: unfolded outbound_calls_getAllConfigs)
next
  note unfolded = post_api_invite_accepts [of reqBody es rt s, OF assms]
  assume many: "1 < length (fst (getAllConfigs rt s)) \<and>
    (\<forall>t \<in> set (fst (getAllConfigs rt s)). \<not> strict_equals (team_id t) (reqBody ''teamId''))"
  then have sel: "select_config (fst (getAllConfigs rt s)) (reqBody ''teamId'') = None"
    by (simp add: select_config_none)
  from many have ne: "fst (getAllConfigs rt s) \<noteq> []"
    by auto
  from sel ne show "fst (post_api_invite rt reqBody s) =
      \<lparr>status = Some 400, body = Some (ErrorBody ''Invalid or missing team selection'')\<rparr>"
    by (simp add: unfolded)
  from sel ne show "outbound_calls (snd (post_api_invite rt reqBody s)) = outbound_calls s"
    by (simp add: unfolded outbound_calls_getAllConfigs)
qed

theorem post_api_invite_resolution_failure_witness:
  "fst (getAllConfigs (example_runtime no_env fetch_accepted) empty_store) = [] \<and>
   fst (post_api_invite (example_runtime no_env fetch_accepted)
          (invite_body one_email None) empty_store) =
     \<lparr>status = Some 500, body = Some (ErrorBody ''No team configuration available'')\<rparr> \<and>
   outbound_calls (snd (post_api_invite (example_runtime no_env fetch_accepted)
          (invite_body one_email None) empty_store)) = [] \<and>
   fst (getAllConfigs (example_runtime no_env fetch_accepted) three_teams) =
     [unnamed, alpha, beta] \<and>
   fst (post_api_invite (example_runtime no_env fetch_accepted)
          (invite_body one_email (Some (JStr ''id-9''))) three_teams) =
     \<lparr>status = Some 400, body = Some (ErrorBody ''Invalid or missing team selection'')\<rparr> \<and>
   outbound_calls (snd (post_api_invite (example_runtime no_env fetch_accepted)
          (invite_body one_email (Some (JStr ''id-9''))) three_teams)) = []"
proof -
  let ?rt = "example_runtime no_env fetch_accepted"
  let ?es = "[JStr ''x@y.com'']"
  let ?b0 = "invite_body one_email None"
  let ?b9 = "invite_body one_email (Some (JStr ''id-9''))"
  have emails: "?b0 ''emails'' = Some (JArr ?es)" "?b9 ''emails'' = Some (JArr ?es)"
    by (simp_all add: invite_body_def one_email_def)
  have ne: "[JStr ''x@y.com''] \<noteq> []"
    by simp
  have none: "fst (getAllConfigs ?rt empty_store) = []"
    by (simp add: getAllConfigs_def loadTeams_def kv_list_def array_sort_def empty_store_def
        example_runtime_def no_env_def)
  have three: "fst (getAllConfigs ?rt three_teams) = [unnamed, alpha, beta]"
    by (simp add: getAllConfigs_def loadTeams_def kv_list_def array_sort_def three_teams_def
        example_runtime_def compare_names_def byte_compare_def or_str_def
        alpha_def beta_def unnamed_def)
  have teamId: "invite_body one_email (Some (JStr ''id-9'')) ''teamId'' = Some (JStr ''id-9'')"
    by (simp add: invite_body_def)
  have calls0: "outbound_calls empty_store = []" "outbound_calls three_teams = []"
    by (simp_all add: outbound_calls_def empty_store_def three_teams_def)
  from post_api_invite_resolution_failure [of ?b0 ?es ?rt empty_store, OF emails(1) ne]
    post_api_invite_resolution_failure [of ?b9 ?es ?rt three_teams, OF emails(2) ne]
    none three teamId calls0
  show ?thesis
    by (simp add: alpha_def beta_def unnamed_def)
qed

text \<open>
  C3 (single-team convenience). On a request whose \<open>emails\<close> is a non-empty array,
  when exactly one configuration is available and \<open>teamId\<close> (absent or not) is not
  its id, the selection still yields that configuration, and the one outbound call
  the request adds is addressed to its \<open>accountId\<close> and carries its \<open>token\<close>.
\<close>

theorem post_api_invite_single_team:
  assumes "reqBody ''emails'' = Some (JArr es)" and "es \<noteq> []"
    and "fst (getAllConfigs rt s) = [c]"
    and "\<not> strict_equals (team_id c) (reqBody ''teamId'')"
  shows "select_config (fst (getAllConfigs rt s)) (reqBody ''teamId'') = Some c \<and>
         trace (snd (post_api_invite rt reqBody s)) =
           trace s @ [KvList,
                      Fetch (invite_request (JArr es)
                               (or_else (reqBody ''role'') (JStr ''reader''))
                               (or_else (reqBody ''resend'') (JBool False))
                               (token c) (accountId c))]"
proof
  show sel: "select_config (fst (getAllConfigs rt s)) (reqBody ''teamId'') = Some c"
    using assms(3) by (simp add: select_config_single)
  have "snd (post_api_invite rt reqBody s) =
      snd (sendInvitesApi rt (JArr es)
             (or_else (reqBody ''role'') (JStr ''reader''))
             (or_else (reqBody ''resend'') (JBool False))
             (token c) (accountId c) (snd (getAllConfigs rt s)))"
    using assms(3) sel
    by (simp add: post_api_invite_accepts [of reqBody es rt s, OF assms(1,2)] Let_def
        split: sum.splits)
  then show "trace (snd (post_api_invite rt reqBody s)) =
           trace s @ [KvList,
                      Fetch (invite_request (JArr es)
                               (or_else (reqBody ''role'') (JStr ''reader''))
                               (or_else (reqBody ''resend'') (JBool False))
                               (token c) (accountId c))]"
    by (simp add: snd_sendInvitesApi snd_getAllConfigs)
qed

theorem post_api_invite_single_team_witness:
  "invite_body one_email (Some (JStr ''id-9'')) ''emails'' = Some (JArr [JStr ''x@y.com'']) \<and>
   fst (getAllConfigs (example_runtime no_env fetch_accepted) one_team) = [alpha] \<and>
   \<not> strict_equals (team_id alpha) (invite_body one_email (Some (JStr ''id-9'')) ''teamId'') \<and>
   trace (snd (post_api_invite (example_runtime no_env fetch_accepted)
            (invite_body one_email (Some (JStr ''id-9''))) one_team)) =
     [KvList,
      Fetch (invite_request (JArr [JStr ''x@y.com'']) (JStr ''reader'') (JBool False)
               ''t1'' ''a1'')]"
proof -
  let ?rt = "example_runtime no_env fetch_accepted"
  let ?b = "invite_body one_email (Some (JStr ''id-9''))"
  have emails: "?b ''emails'' = Some (JArr [JStr ''x@y.com''])"
    by (simp add: invite_body_def one_email_def)
  have ne: "[JStr ''x@y.com''] \<noteq> []"
    by simp
  have one: "fst (getAllConfigs ?rt one_team) = [alpha]"
    by (simp add: getAllConfigs_def loadTeams_def kv_list_def array_sort_def one_team_def)
  have unmatched: "\<not> strict_equals (team_id alpha) (?b ''teamId'')"
    by (simp add: invite_body_def alpha_def)
  from post_api_invite_single_team [of ?b "[JStr ''x@y.com'']" ?rt one_team alpha,
      OF emails ne one unmatched] emails one unmatched
  show ?thesis
    by (simp add: invite_body_def or_else_def alpha_def one_team_def)
qed

text \<open>
  C4 (validation before dispatch). When \<open>emails\<close> is absent, is not an array or is
  the empty array, the route answers 400 with \<open>{error: "Emails array is required"}\<close>
  and leaves the state as it was: the trace has no new entry, so the store was not
  read and no outbound call was made.
\<close>

theorem post_api_invite_validation:
  assumes "reqBody ''emails'' = None \<or> \<not> isArray (reqBody ''emails'')
             \<or> reqBody ''emails'' = Some (JArr [])"
  shows "post_api_invite rt reqBody s =
           (\<lparr>status = Some 400, body = Some (ErrorBody ''Emails array is required'')\<rparr>, s) \<and>
         trace (snd (post_api_invite rt reqBody s)) = trace s"
proof -
  from assms have "\<not> truthy (reqBody ''emails'') \<or> \<not> isArray (reqBody ''emails'')
     \<or> array_length (reqBody ''emails'') = 0"
    by auto
  then show ?thesis
    by (simp add: post_api_invite_rejects)
qed

theorem post_api_invite_validation_witness:
  "invite_body (Some (JArr [])) None ''emails'' = Some (JArr []) \<and>
   post_api_invite (example_runtime both_env fetch_accepted)
       (invite_body (Some (JArr [])) None) one_team =
     (\<lparr>status = Some 400, body = Some (ErrorBody ''Emails array is required'')\<rparr>, one_team) \<and>
   \<not> isArray (invite_body (Some (JStr ''x@y.com'')) None ''emails'') \<and>
   post_api_invite (example_runtime both_env fetch_accepted)
       (invite_body (Some (JStr ''x@y.com'')) None) one_team =
     (\<lparr>status = Some 400, body = Some (ErrorBody ''Emails array is required'')\<rparr>, one_team) \<and>
   invite_body None None ''emails'' = None \<and>
   post_api_invite (example_runtime both_env fetch_accepted) (invite_body None None) one_team =
     (\<lparr>status = Some 400, body = Some (ErrorBody ''Emails array is required'')\<rparr>, one_team)"
proof -
  have absent: "invite_body None None ''emails'' = None"
    by (simp add: invite_body_def)
  have empty: "invite_body (Some (JArr [])) None ''emails'' = Some (JArr [])"
    by (simp add: invite_body_def)
  have scalar: "\<not> isArray (invite_body (Some (JStr ''x@y.com'')) None ''emails'')"
    by (simp add: invite_body_def)
  from post_api_invite_validation [of "invite_body (Some (JArr [])) None"
        "example_runtime both_env fetch_accepted" one_team]
    post_api_invite_validation [of "invite_body (Some (JStr ''x@y.com'')) None"
        "example_runtime both_env fetch_accepted" one_team]
    post_api_invite_validation [of "invite_body None None"
        "example_runtime both_env fetch_accepted" one_team]
    empty scalar absent
  show ?thesis
    by simp
qed

lemma fst_sendInvitesApi:
  "fst (sendInvitesApi rt emails role resend tok acct s) =
     (case fetch rt (invite_request emails role resend tok acct) of
        Rejects e \<Rightarrow> Inl e
      | Resolves r \<Rightarrow>
          if \<not> response_ok r then
            (case response_text r of
               Inl e \<Rightarrow> Inl e
             | Inr txt \<Rightarrow> Inr (ApiFailure (response_status r) txt))
          else
            (case response_json r of
               Inl e \<Rightarrow> Inl e
             | Inr d \<Rightarrow> Inr (ApiSuccess d)))"
  by (simp add: sendInvitesApi_def Let_def split: fetch_outcome.splits sum.splits)

lemma sendInvitesApi_throws:
  "call_throws (fetch rt (invite_request emails role resend tok acct)) e \<Longrightarrow>
   fst (sendInvitesApi rt emails role resend tok acct s) = Inl e"
  by (cases "fetch rt (invite_request emails role resend tok acct)")
     (simp_all add: fst_sendInvitesApi)

text \<open>
  C7 (upstream rejection). When the upstream call completes with a status \<open>st\<close> that
  is not a success and with body text \<open>b\<close>, \<open>sendInvitesApi\<close> returns the value
  \<open>{success: false, statusCode: st, error: b}\<close> and throws nothing; the route then
  answers with status \<open>st\<close>, \<open>success\<close> false and that value as \<open>details\<close>.
\<close>

theorem upstream_rejection_normalized:
  "(fetch rt (invite_request emails role resend tok acct) = Resolves r \<and>
    \<not> response_ok r \<and> response_text r = Inr b \<longrightarrow>
      fst (sendInvitesApi rt emails role resend tok acct s) =
        Inr (ApiFailure (response_status r) b)) \<and>
   (reqBody ''emails'' = Some (JArr es) \<and> es \<noteq> [] \<and>
    select_config (fst (getAllConfigs rt s0)) (reqBody ''teamId'') = Some c \<and>
    fetch rt (invite_request (JArr es)
                (or_else (reqBody ''role'') (JStr ''reader''))
                (or_else (reqBody ''resend'') (JBool False))
                (token c) (accountId c)) = Resolves r \<and>
    \<not> response_ok r \<and> response_status r \<noteq> 0 \<and> response_text r = Inr b \<longrightarrow>
      fst (post_api_invite rt reqBody s0) =
        \<lparr>status = Some (response_status r),
          body = Some (InviteResult False (name c) (ApiFailure (response_status r) b))\<rparr>)"
proof (intro conjI impI)
  assume "fetch rt (invite_request emails role resend tok acct) = Resolves r \<and>
    \<not> response_ok r \<and> response_text r = Inr b"
  then show "fst (sendInvitesApi rt emails role resend tok acct s) =
      Inr (ApiFailure (response_status r) b)"
    by (simp add: fst_sendInvitesApi)
next
  assume h: "reqBody ''emails'' = Some (JArr es) \<and> es \<noteq> [] \<and>
    select_config (fst (getAllConfigs rt s0)) (reqBody ''teamId'') = Some c \<and>
    fetch rt (invite_request (JArr es)
                (or_else (reqBody ''role'') (JStr ''reader''))
                (or_else (reqBody ''resend'') (JBool False))
                (token c) (accountId c)) = Resolves r \<and>
    \<not> response_ok r \<and> response_status r \<noteq> 0 \<and> response_text r = Inr b"
  then have emails: "reqBody ''emails'' = Some (JArr es)" "es \<noteq> []"
    by simp_all
  from h have ne: "fst (getAllConfigs rt s0) \<noteq> []"
    using select_config_nonempty by blast
  from h ne show "fst (post_api_invite rt reqBody s0) =
      \<lparr>status = Some (response_status r),
        body = Some (InviteResult False (name c) (ApiFailure (response_status r) b))\<rparr>"
    by (simp add: post_api_invite_accepts [of reqBody es rt s0, OF emails]
        Let_def fst_sendInvitesApi)
qed

theorem upstream_rejection_normalized_witness:
  "fst (sendInvitesApi (example_runtime no_env fetch_forbidden)
          (JArr [JStr ''x@y.com'']) (JStr ''reader'') (JBool False) ''t1'' ''a1'' one_team) =
     Inr (ApiFailure 403 ''forbidden'') \<and>
   fst (post_api_invite (example_runtime no_env fetch_forbidden)
          (invite_body one_email None) one_team) =
     \<lparr>status = Some 403,
       body = Some (InviteResult False (Some ''Alpha'') (ApiFailure 403 ''forbidden''))\<rparr>"
proof -
  let ?rt = "example_runtime no_env fetch_forbidden"
  let ?b = "invite_body one_email None"
  let ?es = "[JStr ''x@y.com'']"
  let ?r = "Response 403 (Inr ''forbidden'') (Inl (Error ''Unexpected token''))"
  have up: "\<And>q. fetch ?rt q = Resolves ?r"
    by (simp add: example_runtime_def fetch_forbidden_def)
  have rejected: "\<not> response_ok ?r" "response_status ?r \<noteq> 0" "response_text ?r = Inr ''forbidden''"
    by (simp_all add: response_ok_def)
  have emails: "?b ''emails'' = Some (JArr ?es)" "?es \<noteq> []"
    by (simp_all add: invite_body_def one_email_def)
  have one: "fst (getAllConfigs ?rt one_team) = [alpha]"
    by (simp add: getAllConfigs_def loadTeams_def kv_list_def array_sort_def one_team_def)
  have sel: "select_config (fst (getAllConfigs ?rt one_team)) (?b ''teamId'') = Some alpha"
    by (simp add: one select_config_single)
  from upstream_rejection_normalized [of ?rt "JArr ?es" "JStr ''reader''" "JBool False"
      "''t1''" "''a1''" ?r "''forbidden''" one_team ?b ?es one_team alpha]
    up rejected emails sel
  show ?thesis
    by (simp add: alpha_def)
qed

text \<open>
  C8 (transport failure). When the outbound call throws \<open>e\<close>, in \<open>fetch\<close> or while
  the response is read, \<open>sendInvitesApi\<close> passes \<open>e\<close> on to its caller, and the route
  catches it: it answers 500 with
  \<open>{success: false, team: <name of the resolved team>, error: e.message}\<close>.
\<close>

theorem transport_failure_converted:
  "(call_throws (fetch rt (invite_request emails role resend tok acct)) e \<longrightarrow>
      fst (sendInvitesApi rt emails role resend tok acct s) = Inl e) \<and>
   (reqBody ''emails'' = Some (JArr es) \<and> es \<noteq> [] \<and>
    select_config (fst (getAllConfigs rt s0)) (reqBody ''teamId'') = Some c \<and>
    call_throws (fetch rt (invite_request (JArr es)
                   (or_else (reqBody ''role'') (JStr ''reader''))
                   (or_else (reqBody ''resend'') (JBool False))
                   (token c) (accountId c))) e \<longrightarrow>
      fst (post_api_invite rt reqBody s0) =
        \<lparr>status = Some 500, body = Some (InviteError (name c) (message e))\<rparr>)"
proof (intro conjI impI)
  assume "call_throws (fetch rt (invite_request emails role resend tok acct)) e"
  then show "fst (sendInvitesApi rt emails role resend tok acct s) = Inl e"
    by (rule sendInvitesApi_throws)
next
  assume h: "reqBody ''emails'' = Some (JArr es) \<and> es \<noteq> [] \<and>
    select_config (fst (getAllConfigs rt s0)) (reqBody ''teamId'') = Some c \<and>
    call_throws (fetch rt (invite_request (JArr es)
                   (or_else (reqBody ''role'') (JStr ''reader''))
                   (or_else (reqBody ''resend'') (JBool False))
                   (token c) (accountId c))) e"
  then have emails: "reqBody ''emails'' = Some (JArr es)" "es \<noteq> []"
    by simp_all
  from h have ne: "fst (getAllConfigs rt s0) \<noteq> []"
    using select_config_nonempty by blast
  from h have thrown: "fst (sendInvitesApi rt (JArr es)
                   (or_else (reqBody ''role'') (JStr ''reader''))
                   (or_else (reqBody ''resend'') (JBool False))
                   (token c) (accountId c) (snd (getAllConfigs rt s0))) = Inl e"
    by (simp add: sendInvitesApi_throws)
  from h ne thrown show "fst (post_api_invite rt reqBody s0) =
      \<lparr>status = Some 500, body = Some (InviteError (name c) (message e))\<rparr>"
    by (simp add: post_api_invite_accepts [of reqBody es rt s0, OF emails] Let_def)
qed

theorem transport_failure_converted_witness:
  "call_throws (fetch (example_runtime no_env fetch_unreachable)
       (invite_request (JArr [JStr ''x@y.com'']) (JStr ''reader'') (JBool False) ''t1'' ''a1''))
     (Error ''connection refused'') \<and>
   fst (sendInvitesApi (example_runtime no_env fetch_unreachable)
          (JArr [JStr ''x@y.com'']) (JStr ''reader'') (JBool False) ''t1'' ''a1'' one_team) =
     Inl (Error ''connection refused'') \<and>
   fst (post_api_invite (example_runtime no_env fetch_unreachable)
          (invite_body one_email None) one_team) =
     \<lparr>status = Some 500,
       body = Some (InviteError (Some ''Alpha'') ''connection refused'')\<rparr>"
proof -
  let ?rt = "example_runtime no_env fetch_unreachable"
  let ?b = "invite_body one_email None"
  let ?es = "[JStr ''x@y.com'']"
  have down: "\<And>q. call_throws (fetch ?rt q) (Error ''connection refused'')"
    by (simp add: example_runtime_def fetch_unreachable_def)
  have emails: "?b ''emails'' = Some (JArr ?es)" "?es \<noteq> []"
    by (simp_all add: invite_body_def one_email_def)
  have one: "fst (getAllConfigs ?rt one_team) = [alpha]"
    by (simp add: getAllConfigs_def loadTeams_def kv_list_def array_sort_def one_team_def)
  have sel: "select_config (fst (getAllConfigs ?rt one_team)) (?b ''teamId'') = Some alpha"
    by (simp add: one select_config_single)
  from transport_failure_converted [of ?rt "JArr ?es" "JStr ''reader''" "JBool False"
      "''t1''" "''a1''" "Error ''connection refused''" one_team ?b ?es one_team alpha]
    down emails sel
  show ?thesis
    by (simp add: alpha_def)
qed

section \<open>Listing and deleting teams\<close>




text \<open>
  C6 (idempotent delete). Deleting \<open>x\<close> a second time leaves the store as the first
  deletion left it, and after the first deletion no entry is filed under \<open>x\<close>; in a
  store whose entries are filed under the id of their value, \<open>loadTeams\<close> then
  returns no record with id \<open>x\<close>. For the non-empty \<open>x\<close> the router passes on, the
  route answers \<open>{success: true}\<close> both times, whether or not \<open>x\<close> was stored.
\<close>

theorem deleteTeam_idempotent:
  "kv (deleteTeam x (deleteTeam x s)) = kv (deleteTeam x s) \<and>
   x \<notin> fst ` set (kv (deleteTeam x s)) \<and>
   (keyed_by_id (kv s) \<longrightarrow>
      (\<forall>t \<in> set (fst (loadTeams rt (deleteTeam x s))). team_id t \<noteq> Some x)) \<and>
   (x \<noteq> [] \<longrightarrow>
      delete_api_teams (Some x) s =
        (\<lparr>status = None, body = Some SuccessBody\<rparr>, deleteTeam x s) \<and>
      fst (delete_api_teams (Some x) (deleteTeam x s)) =
        \<lparr>status = None, body = Some SuccessBody\<rparr>)"
proof (intro conjI impI ballI)
  show "kv (deleteTeam x (deleteTeam x s)) = kv (deleteTeam x s)"
    by (simp add: deleteTeam_def kv_delete_twice)
  show absent: "x \<notin> fst ` set (kv (deleteTeam x s))"
    by (simp add: deleteTeam_def kv_delete_absent)
  show "team_id t \<noteq> Some x"
    if inv: "keyed_by_id (kv s)" and t: "t \<in> set (fst (loadTeams rt (deleteTeam x s)))" for t
  proof -
    from t obtain k where entry: "(k, t) \<in> set (kv (deleteTeam x s))"
      by (auto simp: fst_loadTeams set_array_sort)
    from inv have "keyed_by_id (kv (deleteTeam x s))"
      by (rule keyed_by_id_deleteTeam)
    with entry have "team_id t = Some k"
      by (auto simp: keyed_by_id_def list_all_iff)
    moreover from entry absent have "k \<noteq> x"
      by force
    ultimately show ?thesis by simp
  qed
  show "delete_api_teams (Some x) s =
      (\<lparr>status = None, body = Some SuccessBody\<rparr>, deleteTeam x s)" if "x \<noteq> []"
    using that by (simp add: delete_api_teams_def)
  show "fst (delete_api_teams (Some x) (deleteTeam x s)) =
      \<lparr>status = None, body = Some SuccessBody\<rparr>" if "x \<noteq> []"
    using that by (simp add: delete_api_teams_def)
qed

theorem deleteTeam_idempotent_witness:
  "keyed_by_id (kv three_teams) \<and> ''id-2'' \<noteq> [] \<and>
   kv (deleteTeam ''id-2'' three_teams) = [(''id-1'', beta), (''id-3'', unnamed)] \<and>
   kv (deleteTeam ''id-2'' (deleteTeam ''id-2'' three_teams)) =
     [(''id-1'', beta), (''id-3'', unnamed)] \<and>
   fst (loadTeams (example_runtime no_env fetch_accepted) (deleteTeam ''id-2'' three_teams)) =
     [unnamed, beta] \<and>
   team_id unnamed \<noteq> Some ''id-2'' \<and> team_id beta \<noteq> Some ''id-2'' \<and>
   fst (delete_api_teams (Some ''id-2'') three_teams) =
     \<lparr>status = None, body = Some SuccessBody\<rparr> \<and>
   fst (delete_api_teams (Some ''id-2'') (deleteTeam ''id-2'' three_teams)) =
     \<lparr>status = None, body = Some SuccessBody\<rparr>"
proof -
  let ?rt = "example_runtime no_env fetch_accepted"
  have inv: "keyed_by_id (kv three_teams)"
    by (simp add: keyed_by_id_def three_teams_def alpha_def beta_def unnamed_def)
  have first: "kv (deleteTeam ''id-2'' three_teams) = [(''id-1'', beta), (''id-3'', unnamed)]"
    by (simp add: deleteTeam_def kv_delete_def three_teams_def)
  have listed: "fst (loadTeams ?rt (deleteTeam ''id-2'' three_teams)) = [unnamed, beta]"
    by (simp add: loadTeams_def first kv_list_def array_sort_def
        example_runtime_def compare_names_def byte_compare_def or_str_def
        beta_def unnamed_def)
  from deleteTeam_idempotent [of "''id-2''" three_teams ?rt] inv first listed
  show ?thesis
    by simp
qed

section \<open>Adding a team\<close>

lemma saveTeam_new:
  "saveTeam rt \<lparr>token = tok, accountId = acct, name = nm, team_id = None\<rparr> s =
     (\<lparr>token = tok, accountId = acct, name = nm, team_id = Some (randomUUID rt)\<rparr>,
      s\<lparr>kv := kv_set (randomUUID rt)
                  \<lparr>token = tok, accountId = acct, name = nm, team_id = Some (randomUUID rt)\<rparr>
                  (kv s),
        trace := trace s @ [KvSet (randomUUID rt)]\<rparr>)"
  by (simp add: saveTeam_def Let_def)

lemma post_api_teams_accepts:
  assumes "reqBody ''token'' = Some tok" and "tok \<noteq> []"
    and "reqBody ''accountId'' = Some acct" and "acct \<noteq> []"
  shows "post_api_teams rt reqBody s =
     (\<lparr>status = Some 201,
       body = Some (TeamCreated
                \<lparr>token = tok, accountId = acct,
                 name = Some (or_str (reqBody ''name'') ''Team''),
                 team_id = Some (randomUUID rt)\<rparr>)\<rparr>,
      s\<lparr>kv := kv_set (randomUUID rt)
                  \<lparr>token = tok, accountId = acct,
                   name = Some (or_str (reqBody ''name'') ''Team''),
                   team_id = Some (randomUUID rt)\<rparr>
                  (kv s),
        trace := trace s @ [KvSet (randomUUID rt)]\<rparr>)"
  using assms by (simp add: post_api_teams_def Let_def saveTeam_new)

lemma post_api_teams_rejects:
  "\<not> truthy_str (reqBody ''token'') \<or> \<not> truthy_str (reqBody ''accountId'') \<Longrightarrow>
   post_api_teams rt reqBody s =
     (\<lparr>status = Some 400,
       body = Some (ErrorBody ''Token and Account ID are required'')\<rparr>, s)"
  by (simp add: post_api_teams_def Let_def)

text \<open>
  C9, as the claim states it, fails on a request whose \<open>name\<close> is present and is the
  empty string, which is what the management page sends for a blank name field: the
  team is created with the name \<open>Team\<close>, not with the name supplied.
\<close>

theorem post_api_teams_blank_name_counterexample:
  "team_body (Some []) ''name'' = Some [] \<and>
   fst (post_api_teams (example_runtime no_env fetch_accepted) (team_body (Some [])) empty_store) =
     \<lparr>status = Some 201,
       body = Some (TeamCreated
                \<lparr>token = ''t1'', accountId = ''a1'', name = Some ''Team'',
                 team_id = Some ''3b241101-e2bb-4255-8caf-4136c566a962''\<rparr>)\<rparr> \<and>
   Some ''Team'' \<noteq> team_body (Some []) ''name''"
  by (simp add: post_api_teams_def saveTeam_def Let_def team_body_def or_str_def
      example_runtime_def)

text \<open>
  C9 (team creation), amended. When the body's \<open>token\<close> and \<open>accountId\<close> are
  non-empty and \<open>crypto.randomUUID()\<close> returns a non-empty string, the route answers
  201 with \<open>{success: true, team}\<close>, where \<open>team\<close> has the generated (non-empty) id and
  the token and accountId supplied; its name is the name supplied when that is a
  non-empty string, and \<open>Team\<close> when the name is absent or empty. The record is
  stored under the generated id, and \<open>loadTeams\<close> on the resulting store returns it.
  When \<open>token\<close> or \<open>accountId\<close> is absent or empty, the route answers 400 with
  \<open>{error: "Token and Account ID are required"}\<close> and the state is unchanged.
\<close>

theorem post_api_teams_creates:
  "(reqBody ''token'' = Some tok \<and> tok \<noteq> [] \<and>
    reqBody ''accountId'' = Some acct \<and> acct \<noteq> [] \<and> randomUUID rt \<noteq> [] \<longrightarrow>
      (let created = \<lparr>token = tok, accountId = acct,
                      name = Some (case reqBody ''name'' of
                                     None \<Rightarrow> ''Team''
                                   | Some n \<Rightarrow> if n = [] then ''Team'' else n),
                      team_id = Some (randomUUID rt)\<rparr>
       in fst (post_api_teams rt reqBody s) =
            \<lparr>status = Some 201, body = Some (TeamCreated created)\<rparr> \<and>
          truthy_str (team_id created) \<and>
          map_of (kv (snd (post_api_teams rt reqBody s))) (randomUUID rt) = Some created \<and>
          created \<in> set (fst (loadTeams rt (snd (post_api_teams rt reqBody s)))))) \<and>
   (\<not> truthy_str (reqBody ''token'') \<or> \<not> truthy_str (reqBody ''accountId'') \<longrightarrow>
      post_api_teams rt reqBody s =
        (\<lparr>status = Some 400,
          body = Some (ErrorBody ''Token and Account ID are required'')\<rparr>, s))"
proof (intro conjI impI)
  assume h: "reqBody ''token'' = Some tok \<and> tok \<noteq> [] \<and>
    reqBody ''accountId'' = Some acct \<and> acct \<noteq> [] \<and> randomUUID rt \<noteq> []"
  have nm: "or_str (reqBody ''name'') ''Team'' =
      (case reqBody ''name'' of None \<Rightarrow> ''Team'' | Some n \<Rightarrow> if n = [] then ''Team'' else n)"
    by (simp add: or_str_def split: option.splits)
  from h have unfolded: "post_api_teams rt reqBody s =
     (\<lparr>status = Some 201,
       body = Some (TeamCreated
                \<lparr>token = tok, accountId = acct,
                 name = Some (or_str (reqBody ''name'') ''Team''),
                 team_id = Some (randomUUID rt)\<rparr>)\<rparr>,
      s\<lparr>kv := kv_set (randomUUID rt)
                  \<lparr>token = tok, accountId = acct,
                   name = Some (or_str (reqBody ''name'') ''Team''),
                   team_id = Some (randomUUID rt)\<rparr>
                  (kv s),
        trace := trace s @ [KvSet (randomUUID rt)]\<rparr>)"
    by (simp add: post_api_teams_accepts [of reqBody tok acct rt s])
  from h show "let created = \<lparr>token = tok, accountId = acct,
                      name = Some (case reqBody ''name'' of
                                     None \<Rightarrow> ''Team''
                                   | Some n \<Rightarrow> if n = [] then ''Team'' else n),
                      team_id = Some (randomUUID rt)\<rparr>
       in fst (post_api_teams rt reqBody s) =
            \<lparr>status = Some 201, body = Some (TeamCreated created)\<rparr> \<and>
          truthy_str (team_id created) \<and>
          map_of (kv (snd (post_api_teams rt reqBody s))) (randomUUID rt) = Some created \<and>
          created \<in> set (fst (loadTeams rt (snd (post_api_teams rt reqBody s))))"
    unfolding unfolded Let_def nm [symmetric]
    by (simp add: map_of_kv_set fst_loadTeams set_array_sort image_iff)
       (use kv_set_member in force)
next
  assume "\<not> truthy_str (reqBody ''token'') \<or> \<not> truthy_str (reqBody ''accountId'')"
  then show "post_api_teams rt reqBody s =
      (\<lparr>status = Some 400,
        body = Some (ErrorBody ''Token and Account ID are required'')\<rparr>, s)"
    by (rule post_api_teams_rejects)
qed

theorem post_api_teams_creates_witness:
  "team_body (Some ''Alpha'') ''token'' = Some ''t1'' \<and>
   team_body (Some ''Alpha'') ''accountId'' = Some ''a1'' \<and>
   randomUUID (example_runtime no_env fetch_accepted) \<noteq> [] \<and>
   fst (post_api_teams (example_runtime no_env fetch_accepted)
          (team_body (Some ''Alpha'')) empty_store) =
     \<lparr>status = Some 201,
       body = Some (TeamCreated
                \<lparr>token = ''t1'', accountId = ''a1'', name = Some ''Alpha'',
                 team_id = Some ''3b241101-e2bb-4255-8caf-4136c566a962''\<rparr>)\<rparr> \<and>
   \<lparr>token = ''t1'', accountId = ''a1'', name = Some ''Alpha'',
     team_id = Some ''3b241101-e2bb-4255-8caf-4136c566a962''\<rparr>
     \<in> set (fst (loadTeams (example_runtime no_env fetch_accepted)
                 (snd (post_api_teams (example_runtime no_env fetch_accepted)
                         (team_body (Some ''Alpha'')) empty_store)))) \<and>
   \<not> truthy_str (no_token_body ''token'') \<and>
   post_api_teams (example_runtime no_env fetch_accepted) no_token_body one_team =
     (\<lparr>status = Some 400,
       body = Some (ErrorBody ''Token and Account ID are required'')\<rparr>, one_team)"
proof -
  let ?rt = "example_runtime no_env fetch_accepted"
  let ?b = "team_body (Some ''Alpha'')"
  have given: "?b ''token'' = Some ''t1''" "?b ''accountId'' = Some ''a1''"
      "?b ''name'' = Some ''Alpha''"
    by (simp_all add: team_body_def)
  have uuid: "randomUUID ?rt = ''3b241101-e2bb-4255-8caf-4136c566a962''"
    by (simp add: example_runtime_def)
  have missing: "\<not> truthy_str (no_token_body ''token'')"
    by (simp add: no_token_body_def)
  from post_api_teams_creates [of ?b "''t1''" "''a1''" ?rt empty_store]
    post_api_teams_creates [of no_token_body "''t1''" "''a1''" ?rt one_team]
    given uuid missing
  show ?thesis
    by (simp add: Let_def)
qed

text \<open>
  C10 (adding never overwrites). The handler's answer and the state it leaves do not
  depend on an \<open>id\<close> property of the body, present or not: the team it stores always
  carries the id \<open>crypto.randomUUID()\<close> returned and is filed under it. So when that
  id is not yet a key of the store, every entry of the store is still there after the
  request, and an accepted request makes the store one entry longer.
\<close>

theorem post_api_teams_never_overwrites:
  "post_api_teams rt (reqBody(''id'' := v)) s = post_api_teams rt reqBody s \<and>
   (truthy_str (reqBody ''token'') \<and> truthy_str (reqBody ''accountId'') \<longrightarrow>
      (\<exists>t. body (fst (post_api_teams rt reqBody s)) = Some (TeamCreated t) \<and>
           team_id t = Some (randomUUID rt)) \<and>
      trace (snd (post_api_teams rt reqBody s)) = trace s @ [KvSet (randomUUID rt)]) \<and>
   (randomUUID rt \<notin> fst ` set (kv s) \<longrightarrow>
      set (kv s) \<subseteq> set (kv (snd (post_api_teams rt reqBody s))) \<and>
      (truthy_str (reqBody ''token'') \<and> truthy_str (reqBody ''accountId'') \<longrightarrow>
         length (kv (snd (post_api_teams rt reqBody s))) = Suc (length (kv s))))"
proof -
  have ignored: "post_api_teams rt (reqBody(''id'' := v)) s = post_api_teams rt reqBody s"
    by (simp add: post_api_teams_def)
  have accepted: "\<exists>tok acct.
      post_api_teams rt reqBody s =
        (\<lparr>status = Some 201,
          body = Some (TeamCreated
                   \<lparr>token = tok, accountId = acct,
                    name = Some (or_str (reqBody ''name'') ''Team''),
                    team_id = Some (randomUUID rt)\<rparr>)\<rparr>,
         s\<lparr>kv := kv_set (randomUUID rt)
                     \<lparr>token = tok, accountId = acct,
                      name = Some (or_str (reqBody ''name'') ''Team''),
                      team_id = Some (randomUUID rt)\<rparr>
                     (kv s),
           trace := trace s @ [KvSet (randomUUID rt)]\<rparr>)"
    if "truthy_str (reqBody ''token'') \<and> truthy_str (reqBody ''accountId'')"
  proof -
    from that obtain tok acct where
      "reqBody ''token'' = Some tok" "tok \<noteq> []" "reqBody ''accountId'' = Some acct" "acct \<noteq> []"
      by (cases "reqBody ''token''"; cases "reqBody ''accountId''") auto
    then show ?thesis
      using post_api_teams_accepts [of reqBody tok acct rt s] by blast
  qed
  have created: "(\<exists>t. body (fst (post_api_teams rt reqBody s)) = Some (TeamCreated t) \<and>
           team_id t = Some (randomUUID rt)) \<and>
      trace (snd (post_api_teams rt reqBody s)) = trace s @ [KvSet (randomUUID rt)]"
    if "truthy_str (reqBody ''token'') \<and> truthy_str (reqBody ''accountId'')"
    using accepted [OF that] by auto
  have kept: "set (kv s) \<subseteq> set (kv (snd (post_api_teams rt reqBody s)))"
    if fresh: "randomUUID rt \<notin> fst ` set (kv s)"
  proof (cases "truthy_str (reqBody ''token'') \<and> truthy_str (reqBody ''accountId'')")
    case True
    from accepted [OF True] fresh show ?thesis
      by (auto simp: kv_set_keeps)
  next
    case False
    then show ?thesis
      by (simp add: post_api_teams_rejects)
  qed
  have longer: "length (kv (snd (post_api_teams rt reqBody s))) = Suc (length (kv s))"
    if "randomUUID rt \<notin> fst ` set (kv s)"
      and "truthy_str (reqBody ''token'') \<and> truthy_str (reqBody ''accountId'')"
    using accepted [OF that(2)] that(1) by (auto simp: length_kv_set)
  from ignored created kept longer show ?thesis
    by blast
qed

theorem post_api_teams_never_overwrites_witness:
  "randomUUID (example_runtime no_env fetch_accepted) \<notin> fst ` set (kv one_team) \<and>
   truthy_str (team_body (Some ''Gamma'') ''token'') \<and>
   truthy_str (team_body (Some ''Gamma'') ''accountId'') \<and>
   ((team_body (Some ''Gamma''))(''id'' := Some ''id-2'')) ''id'' = Some ''id-2'' \<and>
   map_of (kv one_team) ''id-2'' = Some alpha \<and>
   post_api_teams (example_runtime no_env fetch_accepted)
       ((team_body (Some ''Gamma''))(''id'' := Some ''id-2'')) one_team =
     post_api_teams (example_runtime no_env fetch_accepted) (team_body (Some ''Gamma'')) one_team \<and>
   kv (snd (post_api_teams (example_runtime no_env fetch_accepted)
              ((team_body (Some ''Gamma''))(''id'' := Some ''id-2'')) one_team)) =
     [(''3b241101-e2bb-4255-8caf-4136c566a962'',
       \<lparr>token = ''t1'', accountId = ''a1'', name = Some ''Gamma'',
        team_id = Some ''3b241101-e2bb-4255-8caf-4136c566a962''\<rparr>),
      (''id-2'', alpha)] \<and>
   length (kv (snd (post_api_teams (example_runtime no_env fetch_accepted)
                      (team_body (Some ''Gamma'')) one_team))) = Suc (length (kv one_team))"
proof -
  let ?rt = "example_runtime no_env fetch_accepted"
  let ?b = "team_body (Some ''Gamma'')"
  have fresh: "randomUUID ?rt \<notin> fst ` set (kv one_team)"
    by (simp add: example_runtime_def one_team_def)
  have given: "truthy_str (?b ''token'')" "truthy_str (?b ''accountId'')"
    by (simp_all add: team_body_def)
  have stored: "map_of (kv one_team) ''id-2'' = Some alpha"
    by (simp add: one_team_def)
  have after: "kv (snd (post_api_teams ?rt ?b one_team)) =
     [(''3b241101-e2bb-4255-8caf-4136c566a962'',
       \<lparr>token = ''t1'', accountId = ''a1'', name = Some ''Gamma'',
        team_id = Some ''3b241101-e2bb-4255-8caf-4136c566a962''\<rparr>),
      (''id-2'', alpha)]"
    by (simp add: post_api_teams_def saveTeam_def Let_def team_body_def or_str_def
        example_runtime_def one_team_def)
  from post_api_teams_never_overwrites [of ?rt ?b "Some ''id-2''" one_team]
    fresh given stored after
  show ?thesis
    by simp
qed

end
